theory Spec2Isabelle
  imports Main
begin

section \<open>The account document and the account store\<close>

text \<open>
  The repository is an Express application over Mongoose. A document of the \<open>User\<close>
  model is a record of the paths that \<open>userSchema\<close> declares (\<open>auth_method\<close> is the
  schema path \<open>method\<close>) and of its \<open>_id\<close>, here \<open>id'\<close>. The schema is strict, so a
  document holds nothing else: \<open>password\<close>, \<open>isEmailVerified\<close>, \<open>otpSecret\<close> and
  \<open>otpExpires\<close>, which the controller names, are not paths of it. Roles and methods
  are strings, as in the schema.
\<close>

record account =
  id' :: nat
  auth_method :: string
  name :: string
  email :: "string option"
  role :: string
  avatar :: "string option"
  local_email :: "string option"
  local_password :: "string option"
  google_id :: "string option"
  google_email :: "string option"
  facebook_id :: "string option"
  facebook_email :: "string option"

type_synonym store = "account list"

text \<open>What a handler's \<open>catch (error)\<close> receives.\<close>

datatype exn =
  ValidationError "string list"
  | ReferenceError string
  | TypeError string
  | CastError string
  | Thrown string

subsection \<open>Schema setters and validators\<close>

text \<open>
  \<open>lowercase: true\<close> is a setter that lower-cases the value; since Mongoose 5 setters
  also run on the values of a query filter. Characters are bytes here, so only the
  ASCII letters are mapped.
\<close>

definition lower_char :: "char \<Rightarrow> char" where
  "lower_char c =
     (if (65::nat) \<le> of_char c \<and> of_char c \<le> (90::nat)
      then char_of (of_char c + (32::nat)) else c)"

definition lowercase :: "string \<Rightarrow> string" where
  "lowercase s = map lower_char s"

text \<open>
  The \<open>match\<close> validator of the \<open>email\<close> path tests the value against
  \<^verbatim>\<open>/^\w+([.-]?\w+)*@\w+([.-]?\w+)*(\.\w{2,3})+$/\<close>. The expression has no
  back-references or look-around and is anchored at both ends, so \<open>test\<close> decides
  membership in a regular language; the matcher below decides it by derivatives.
\<close>

datatype rx =
  Nul
  | Eps
  | Word
  | OneOf "char list"
  | Seq rx rx
  | Alt rx rx
  | Star rx

definition is_word_char :: "char \<Rightarrow> bool" where
  "is_word_char c =
     (let n = (of_char c :: nat)
      in (48 \<le> n \<and> n \<le> 57) \<or> (65 \<le> n \<and> n \<le> 90) \<or> (97 \<le> n \<and> n \<le> 122) \<or> n = 95)"

fun nullable :: "rx \<Rightarrow> bool" where
  "nullable Nul = False"
| "nullable Eps = True"
| "nullable Word = False"
| "nullable (OneOf cs) = False"
| "nullable (Seq r s) = (nullable r \<and> nullable s)"
| "nullable (Alt r s) = (nullable r \<or> nullable s)"
| "nullable (Star r) = True"

fun seq :: "rx \<Rightarrow> rx \<Rightarrow> rx" where
  "seq Nul s = Nul"
| "seq Eps s = s"
| "seq r s = Seq r s"

fun alt :: "rx \<Rightarrow> rx \<Rightarrow> rx" where
  "alt Nul s = s"
| "alt r Nul = r"
| "alt r s = Alt r s"

fun deriv :: "char \<Rightarrow> rx \<Rightarrow> rx" where
  "deriv c Nul = Nul"
| "deriv c Eps = Nul"
| "deriv c Word = (if is_word_char c then Eps else Nul)"
| "deriv c (OneOf cs) = (if c \<in> set cs then Eps else Nul)"
| "deriv c (Seq r s) =
     (if nullable r then alt (seq (deriv c r) s) (deriv c s) else seq (deriv c r) s)"
| "deriv c (Alt r s) = alt (deriv c r) (deriv c s)"
| "deriv c (Star r) = seq (deriv c r) (Star r)"

fun rx_test :: "rx \<Rightarrow> string \<Rightarrow> bool" where
  "rx_test r [] = nullable r"
| "rx_test r (c # cs) = rx_test (deriv c r) cs"

definition rx_plus :: "rx \<Rightarrow> rx" where
  "rx_plus r = Seq r (Star r)"

definition rx_opt :: "rx \<Rightarrow> rx" where
  "rx_opt r = Alt Eps r"

definition email_label :: rx where
  "email_label =
     Seq (rx_plus Word) (Star (Seq (rx_opt (OneOf ''.-'')) (rx_plus Word)))"

definition email_rx :: rx where
  "email_rx =
     Seq email_label
       (Seq (OneOf ''@'')
          (Seq email_label
             (rx_plus (Seq (OneOf ''.'') (Seq Word (Seq Word (rx_opt Word)))))))"

definition email_match :: "string \<Rightarrow> bool" where
  "email_match v = (if v = [] then True else rx_test email_rx v)"

text \<open>
  \<open>schema_errors\<close> lists the paths of a new document that fail validation under
  \<open>userSchema\<close>: \<open>method\<close> is required and one of \<open>local\<close>, \<open>google\<close>, \<open>facebook\<close>;
  \<open>name\<close> is required (for a string, \<open>required\<close> also rejects the empty string);
  \<open>email\<close> must match the expression above unless it is absent or empty; \<open>role\<close>, when
  given, is one of \<open>user\<close>, \<open>admin\<close>.
\<close>

record draft =
  d_method :: "string option"
  d_name :: "string option"
  d_email :: "string option"
  d_role :: "string option"
  d_avatar :: "string option"
  d_local_password :: "string option"
  d_google :: "(string \<times> string) option"
  d_facebook :: "(string \<times> string) option"
  d_password :: "string option"

definition required_string :: "string option \<Rightarrow> bool" where
  "required_string v = (case v of None \<Rightarrow> False | Some s \<Rightarrow> s \<noteq> [])"

definition schema_errors :: "draft \<Rightarrow> string list" where
  "schema_errors d =
     (if required_string (d_method d) \<and> d_method d \<in> Some ` {''local'', ''google'', ''facebook''}
      then [] else [''method''])
     @ (if required_string (d_name d) then [] else [''name''])
     @ (case d_email d of None \<Rightarrow> []
        | Some e \<Rightarrow> if email_match (lowercase e) then [] else [''email''])
     @ (case d_role d of None \<Rightarrow> []
        | Some r \<Rightarrow> if r \<in> {''user'', ''admin''} then [] else [''role''])"

text \<open>
  The store is the collection, in insertion order. A new document gets an \<open>_id\<close> that
  no stored document has.
\<close>

definition new_id :: "store \<Rightarrow> nat" where
  "new_id st = Suc (foldr max (map id' st) 0)"

text \<open>
  \<open>User_create\<close> is \<open>new User(d)\<close> followed by \<open>save()\<close> (and so \<open>User.create(d)\<close>)
  for the repository's \<open>userSchema\<close>: strict mode drops the top-level \<open>password\<close>, which the
  schema does not declare; the setters lower-case the three email paths; \<open>role\<close>
  defaults to \<open>user\<close>; validation runs before the \<open>pre('save')\<close> hook, which replaces
  \<open>local.password\<close> by its bcrypt hash when the method is \<open>local\<close> and that path is
  set. The hash (with its random salt) is the parameter \<open>bcrypt_hash\<close>.
\<close>

definition pre_save :: "(string \<Rightarrow> string) \<Rightarrow> account \<Rightarrow> account" where
  "pre_save bcrypt_hash doc =
     (if auth_method doc \<noteq> ''local'' then doc
      else case local_password doc of
             None \<Rightarrow> doc
           | Some p \<Rightarrow> doc\<lparr>local_password := Some (bcrypt_hash p)\<rparr>)"

definition new_User :: "draft \<Rightarrow> nat \<Rightarrow> account" where
  "new_User d i =
     \<lparr>id' = i,
      auth_method = (case d_method d of None \<Rightarrow> [] | Some m \<Rightarrow> m),
      name = (case d_name d of None \<Rightarrow> [] | Some n \<Rightarrow> n),
      email = map_option lowercase (d_email d),
      role = (case d_role d of None \<Rightarrow> ''user'' | Some r \<Rightarrow> r),
      avatar = d_avatar d,
      local_email = None,
      local_password = d_local_password d,
      google_id = map_option fst (d_google d),
      google_email = map_option (\<lambda>g. lowercase (snd g)) (d_google d),
      facebook_id = map_option fst (d_facebook d),
      facebook_email = map_option (\<lambda>g. lowercase (snd g)) (d_facebook d)\<rparr>"

definition User_create ::
  "(string \<Rightarrow> string) \<Rightarrow> draft \<Rightarrow> store \<Rightarrow> exn + account \<times> store" where
  "User_create bcrypt_hash d st =
     (if schema_errors d \<noteq> [] then Inl (ValidationError (schema_errors d))
      else (let doc = pre_save bcrypt_hash (new_User d (new_id st))
            in Inr (doc, st @ [doc])))"

subsection \<open>Queries and updates\<close>

text \<open>
  \<open>findOne\<close> returns the first document that matches, \<open>null\<close> being \<open>None\<close>. The
  filter value of \<open>User.findOne({ email })\<close> passes through the path's setter, so the
  comparison is with the lower-cased address. The database itself is taken to answer
  every query: a lost connection is not a case of the model.
\<close>

definition User_findOne_email :: "store \<Rightarrow> string \<Rightarrow> account option" where
  "User_findOne_email st e = find (\<lambda>u. email u = Some (lowercase e)) st"

definition User_findOne_google :: "store \<Rightarrow> string \<Rightarrow> account option" where
  "User_findOne_google st pid = find (\<lambda>u. google_id u = Some pid) st"

definition User_findOne_facebook :: "store \<Rightarrow> string \<Rightarrow> account option" where
  "User_findOne_facebook st pid = find (\<lambda>u. facebook_id u = Some pid) st"

definition User_findById :: "store \<Rightarrow> nat \<Rightarrow> account option" where
  "User_findById st i = find (\<lambda>u. id' u = i) st"

text \<open>
  \<open>user.save()\<close> on a loaded document writes its paths back under its \<open>_id\<close>. The
  handlers assign only values that the schema accepts (a role from the closed set),
  so this write has no validation failure. A property that is not a path of the
  schema is not part of the document and is not written.
\<close>

definition save :: "account \<Rightarrow> store \<Rightarrow> store" where
  "save doc st = map (\<lambda>u. if id' u = id' doc then doc else u) st"

definition User_findByIdAndUpdate_role :: "store \<Rightarrow> nat \<Rightarrow> string \<Rightarrow> store" where
  "User_findByIdAndUpdate_role st i r =
     map (\<lambda>u. if id' u = i then u\<lparr>role := r\<rparr> else u) st"

subsection \<open>Document methods\<close>



definition generateOTP :: "account \<Rightarrow> exn + string" where
  "generateOTP user = Inl (TypeError ''user.generateOTP is not a function'')"

definition verifyOTP :: "account \<Rightarrow> string \<Rightarrow> exn + bool" where
  "verifyOTP user otp = Inl (TypeError ''user.verifyOTP is not a function'')"

text \<open>A JSON or JavaScript value, as far as the handlers distinguish them.\<close>

datatype json = JUndefined | JNull | JBool bool | JNum int | JStr string | JObject

fun truthy :: "json \<Rightarrow> bool" where
  "truthy JUndefined = False"
| "truthy JNull = False"
| "truthy (JBool b) = b"
| "truthy (JNum n) = (n \<noteq> 0)"
| "truthy (JStr s) = (s \<noteq> [])"
| "truthy JObject = True"


section \<open>Provider strategies (config/passport.js)\<close>

text \<open>
  The profile that passport hands to a strategy's verify callback. \<open>emails\<close> and
  \<open>photos\<close> hold the \<open>value\<close> of each entry; an absent array is the empty list.
  \<open>done(null, user)\<close> is \<open>Inr user\<close>, \<open>done(error, null)\<close> is \<open>Inl error\<close>.
\<close>

record profile =
  profile_id :: string
  emails :: "string list"
  displayName :: "string option"
  photos :: "string list"

definition first_or_empty :: "string list \<Rightarrow> string" where
  "first_or_empty xs = (case xs of [] \<Rightarrow> [] | x # _ \<Rightarrow> x)"

definition GoogleStrategy_verify ::
  "(string \<Rightarrow> string) \<Rightarrow> store \<Rightarrow> profile \<Rightarrow> store \<times> (exn + account)" where
  "GoogleStrategy_verify bcrypt_hash st p =
     (case User_findOne_google st (profile_id p) of
        Some existingUser \<Rightarrow> (st, Inr existingUser)
      | None \<Rightarrow>
          (let e = first_or_empty (emails p);
               d = \<lparr>d_method = Some ''google'', d_name = displayName p, d_email = Some e,
                    d_role = Some ''user'', d_avatar = Some (first_or_empty (photos p)),
                    d_local_password = None, d_google = Some (profile_id p, e),
                    d_facebook = None, d_password = None\<rparr>
           in case User_create bcrypt_hash d st of
                Inl err \<Rightarrow> (st, Inl err)
              | Inr (newUser, st') \<Rightarrow> (st', Inr newUser)))"

definition FacebookStrategy_verify ::
  "(string \<Rightarrow> string) \<Rightarrow> store \<Rightarrow> profile \<Rightarrow> store \<times> (exn + account)" where
  "FacebookStrategy_verify bcrypt_hash st p =
     (case User_findOne_facebook st (profile_id p) of
        Some existingUser \<Rightarrow> (st, Inr existingUser)
      | None \<Rightarrow>
          (let e = first_or_empty (emails p);
               d = \<lparr>d_method = Some ''facebook'', d_name = displayName p, d_email = Some e,
                    d_role = Some ''user'', d_avatar = Some (first_or_empty (photos p)),
                    d_local_password = None, d_google = None,
                    d_facebook = Some (profile_id p, e), d_password = None\<rparr>
           in case User_create bcrypt_hash d st of
                Inl err \<Rightarrow> (st, Inl err)
              | Inr (newUser, st') \<Rightarrow> (st', Inr newUser)))"

section \<open>Tokens (generateToken)\<close>

text \<open>
  \<open>generateToken\<close> reads the properties \<open>id\<close>, \<open>email\<close> and \<open>role\<close> of whatever it
  is given and passes them to \<open>jwt.sign\<close> with \<open>process.env.JWT_SECRET\<close> and the
  option \<open>expiresIn: process.env.JWT_EXPIRES_IN\<close>. Its callers pass either a document
  or a document's \<open>_id\<close>. A document's \<open>id\<close> is its \<open>_id\<close> as a string. An
  \<open>ObjectId\<close> has no \<open>email\<close> and no \<open>role\<close> (the claims are then \<open>undefined\<close> and
  left out of the token), and its \<open>id\<close> is the raw twelve-byte buffer, not the string.

  \<open>jwt.sign\<close> throws when the secret is unset or empty, and when the lifetime is
  unset, empty or not a time span. A string is a time span when the \<open>ms\<close> package
  parses it: at most 100 characters matching, without regard to case,
  \<^verbatim>\<open>^(-?(?:\d+)?\.?\d+) *(milliseconds?|msecs?|ms|seconds?|secs?|s|minutes?|mins?|m|hours?|hrs?|h|days?|d|weeks?|w|years?|yrs?|y)?$\<close>.
  A token is kept as its claims and its lifetime; the signature is left abstract.
\<close>

fun lit :: "string \<Rightarrow> rx" where
  "lit [] = Eps"
| "lit (c # cs) = Seq (OneOf [c]) (lit cs)"

definition ms_units :: "string list" where
  "ms_units =
     [''milliseconds'', ''millisecond'', ''msecs'', ''msec'', ''ms'',
      ''seconds'', ''second'', ''secs'', ''sec'', ''s'',
      ''minutes'', ''minute'', ''mins'', ''min'', ''m'',
      ''hours'', ''hour'', ''hrs'', ''hr'', ''h'',
      ''days'', ''day'', ''d'', ''weeks'', ''week'', ''w'',
      ''years'', ''year'', ''yrs'', ''yr'', ''y'']"

definition ms_rx :: rx where
  "ms_rx =
     Seq (rx_opt (OneOf ''-''))
       (Seq (rx_opt (rx_plus (OneOf ''0123456789'')))
          (Seq (rx_opt (OneOf ''.''))
             (Seq (rx_plus (OneOf ''0123456789''))
                (Seq (Star (OneOf '' ''))
                   (rx_opt (foldr (\<lambda>u r. Alt (lit u) r) ms_units Nul))))))"

definition ms_parses :: "string \<Rightarrow> bool" where
  "ms_parses s = (length s \<le> 100 \<and> rx_test ms_rx (lowercase s))"

datatype jsval = Document account | ObjectId nat

datatype idclaim = IdString nat | IdBuffer nat

record jwt =
  claim_id :: "idclaim option"
  claim_email :: "string option"
  claim_role :: "string option"
  expiresIn :: string

fun prop_id :: "jsval \<Rightarrow> idclaim option" where
  "prop_id (Document u) = Some (IdString (id' u))"
| "prop_id (ObjectId i) = Some (IdBuffer i)"

fun prop_email :: "jsval \<Rightarrow> string option" where
  "prop_email (Document u) = email u"
| "prop_email (ObjectId i) = None"

fun prop_role :: "jsval \<Rightarrow> string option" where
  "prop_role (Document u) = Some (role u)"
| "prop_role (ObjectId i) = None"

definition generateToken :: "string option \<Rightarrow> string option \<Rightarrow> jsval \<Rightarrow> exn + jwt" where
  "generateToken jwt_secret jwt_expires_in v =
     (case jwt_secret of
        None \<Rightarrow> Inl (Thrown ''secretOrPrivateKey must have a value'')
      | Some k \<Rightarrow>
          if k = [] then Inl (Thrown ''secretOrPrivateKey must have a value'')
          else case jwt_expires_in of
                 None \<Rightarrow> Inl (Thrown ''expiresIn should be a number of seconds or string representing a timespan'')
               | Some s \<Rightarrow>
                   if s = [] \<or> \<not> ms_parses s
                   then Inl (Thrown ''expiresIn should be a number of seconds or string representing a timespan'')
                   else Inr \<lparr>claim_id = prop_id v, claim_email = prop_email v,
                             claim_role = prop_role v, expiresIn = s\<rparr>)"

text \<open>
  The controller module imports \<open>User\<close>, \<open>generateToken\<close> and \<open>sendOTPEmail\<close> and
  declares nothing else, so the identifier \<open>signToken\<close> that \<open>verifyEmail\<close> calls is
  unbound: evaluating the call throws a \<open>ReferenceError\<close>.
\<close>

definition signToken :: "jsval \<Rightarrow> exn + jwt" where
  "signToken v = Inl (ReferenceError ''signToken is not defined'')"

section \<open>The controller (controllers/authController.js)\<close>

text \<open>
  What the handlers take from outside the repository's files is collected in \<open>env\<close>:
  \<open>sendOTPEmail\<close> of the email service, which may return false or throw, and the
  values of \<open>process.env\<close> that are read. \<open>create\<close> is the model's \<open>User.create\<close>; for
  the repository's schema it is \<open>User_create\<close>, with bcrypt's hash as its parameter.
\<close>

record env =
  create :: "draft \<Rightarrow> store \<Rightarrow> exn + account \<times> store"
  sendOTPEmail :: "string \<Rightarrow> string \<Rightarrow> exn + bool"
  development :: bool
  JWT_SECRET :: "string option"
  JWT_EXPIRES_IN :: "string option"

text \<open>
  A request: the body fields a handler destructures, the \<open>:userId\<close> route parameter
  (a string that casts to an \<open>ObjectId\<close>, or one that does not) and the
  \<open>isAdminLogin\<close> flag that the admin routes set. The string fields are the strings
  the client sent.
\<close>

datatype idparam = ObjectIdString nat | Malformed string

record request =
  body_name :: string
  body_email :: string
  body_password :: string
  body_otp :: string
  body_role :: json
  params_userId :: idparam
  isAdminLogin :: bool

datatype message = Text string | NoUserFoundWithId idparam | ErrorMessage exn

text \<open>
  A response is \<open>res.status(n).json(body)\<close> or \<open>res.redirect(url)\<close>; a redirect is
  kept as the path that follows \<open>CLIENT_URL\<close> and the token of its query string.
  \<open>NextError\<close> is \<open>next(err)\<close>: the request is handed to the error middleware.
\<close>

record resbody =
  success :: bool
  message :: "message option"
  error_message :: "exn option"
  token :: "jwt option"
  redirectUrl :: "string option"
  data_user :: "account option"
  data_email :: "string option"
  data_otp :: "string option"
  requiresVerification :: bool

datatype response = Json nat resbody | Redirect string "jwt option" | NextError exn

definition failure :: "message \<Rightarrow> resbody" where
  "failure m =
     \<lparr>success = False, message = Some m, error_message = None, token = None,
      redirectUrl = None, data_user = None, data_email = None, data_otp = None,
      requiresVerification = False\<rparr>"

text \<open>The \<open>catch\<close> block of \<open>register\<close>, \<open>login\<close> and \<open>verifyEmail\<close>.\<close>

definition caught :: "exn \<Rightarrow> response" where
  "caught e = Json 500 (failure (ErrorMessage e))"

definition dashboard :: "string \<Rightarrow> string" where
  "dashboard r = (if r = ''admin'' then ''/admin/dashboard'' else ''/dashboard'')"

subsection \<open>register\<close>

text \<open>
  \<open>generateOTP\<close> would set properties that are not paths of the schema, so the
  \<open>save\<close> that follows it writes the document as it was created.
\<close>

definition registration_draft :: "request \<Rightarrow> draft" where
  "registration_draft req =
     \<lparr>d_method = None, d_name = Some (body_name req), d_email = Some (body_email req),
      d_role = Some (if isAdminLogin req then ''admin'' else ''user''),
      d_avatar = None, d_local_password = None, d_google = None, d_facebook = None,
      d_password = Some (body_password req)\<rparr>"

definition register :: "env \<Rightarrow> store \<Rightarrow> request \<Rightarrow> store \<times> response" where
  "register env st req =
     (case User_findOne_email st (body_email req) of
        Some user \<Rightarrow> (st, Json 400 (failure (Text ''User already exists'')))
      | None \<Rightarrow>
          (case create env (registration_draft req) st of
             Inl e \<Rightarrow> (st, caught e)
           | Inr (user, st1) \<Rightarrow>
               (case generateOTP user of
                  Inl e \<Rightarrow> (st1, caught e)
                | Inr otp \<Rightarrow>
                    (let st2 = save user st1
                     in case sendOTPEmail env (body_email req) otp of
                          Inl e \<Rightarrow> (st2, caught e)
                        | Inr emailSent \<Rightarrow>
                            if \<not> emailSent
                            then (st2, Json 500 (failure (Text ''Error sending verification email'')))
                            else (st2, Json 200
                                   \<lparr>success = True,
                                    message = Some (Text
                                      ((if isAdminLogin req then ''Admin'' else ''User'')
                                       @ '' registered. Please check your email for verification code.'')),
                                    error_message = None, token = None, redirectUrl = None,
                                    data_user = None, data_email = Some (body_email req),
                                    data_otp = (if development env then Some otp else None),
                                    requiresVerification = False\<rparr>)))))"

subsection \<open>login\<close>


subsection \<open>verifyEmail\<close>

text \<open>
  The three assignments that follow an accepted code (\<open>isEmailVerified\<close>,
  \<open>otpSecret\<close>, \<open>otpExpires\<close>) set properties that are not paths of the schema: the
  \<open>save\<close> after them writes the document unchanged, and they are not part of the
  document that a response serialises.
\<close>

definition verifyEmail :: "env \<Rightarrow> store \<Rightarrow> request \<Rightarrow> store \<times> response" where
  "verifyEmail env st req =
     (case User_findOne_email st (body_email req) of
        None \<Rightarrow> (st, Json 404 (failure (Text ''User not found'')))
      | Some user \<Rightarrow>
          (case verifyOTP user (body_otp req) of
             Inl e \<Rightarrow> (st, caught e)
           | Inr ok \<Rightarrow>
               if \<not> ok then (st, Json 401 (failure (Text ''Invalid or expired OTP'')))
               else
                 (let st' = save user st
                  in case signToken (ObjectId (id' user)) of
                       Inl e \<Rightarrow> (st', caught e)
                     | Inr tok \<Rightarrow>
                         (st', Json 200
                            \<lparr>success = True,
                             message = Some (Text ''Email verified successfully''),
                             error_message = None, token = Some tok,
                             redirectUrl = Some (dashboard (role user)),
                             data_user = Some user, data_email = None, data_otp = None,
                             requiresVerification = False\<rparr>))))"

subsection \<open>updateUserRole\<close>

definition includes_role :: "json \<Rightarrow> bool" where
  "includes_role r = (r = JStr ''user'' \<or> r = JStr ''admin'')"

definition role_string :: "json \<Rightarrow> string" where
  "role_string r = (case r of JStr s \<Rightarrow> s | _ \<Rightarrow> [])"

definition updateUserRole :: "store \<Rightarrow> request \<Rightarrow> store \<times> response" where
  "updateUserRole st req =
     (if \<not> truthy (body_role req) \<or> \<not> includes_role (body_role req)
      then (st, Json 400 (failure (Text ''Please provide a valid role (user or admin)'')))
      else case params_userId req of
             Malformed s \<Rightarrow>
               (st, Json 500 ((failure (Text ''Server Error''))\<lparr>error_message := Some (CastError s)\<rparr>))
           | ObjectIdString i \<Rightarrow>
               (case User_findById st i of
                  None \<Rightarrow> (st, Json 404 (failure (NoUserFoundWithId (params_userId req))))
                | Some user \<Rightarrow>
                    (let user' = user\<lparr>role := role_string (body_role req)\<rparr>
                     in (save user' st,
                         Json 200
                           \<lparr>success = True, message = None, error_message = None,
                            token = None, redirectUrl = None, data_user = Some user',
                            data_email = None, data_otp = None,
                            requiresVerification = False\<rparr>))))"

subsection \<open>The OAuth callbacks\<close>

text \<open>
  \<open>req.user\<close> is the account that the strategy resolved; \<open>adminLogin\<close> is
  \<open>req.isAdminLogin\<close>. The role is written before the token is signed; when
  \<open>generateToken\<close> throws, the \<open>catch\<close> redirects to the failure page and the written
  role stays.
\<close>

definition googleCallback :: "env \<Rightarrow> store \<Rightarrow> bool \<Rightarrow> account \<Rightarrow> store \<times> response" where
  "googleCallback env st adminLogin req_user =
     (let user = (if adminLogin then req_user\<lparr>role := ''admin''\<rparr> else req_user);
          st' = (if adminLogin then User_findByIdAndUpdate_role st (id' req_user) ''admin'' else st)
      in case generateToken (JWT_SECRET env) (JWT_EXPIRES_IN env) (Document user) of
           Inl e \<Rightarrow> (st', Redirect ''/auth/failure'' None)
         | Inr tok \<Rightarrow> (st', Redirect (dashboard (role user)) (Some tok)))"

definition facebookCallback :: "env \<Rightarrow> store \<Rightarrow> bool \<Rightarrow> account \<Rightarrow> store \<times> response" where
  "facebookCallback env st adminLogin req_user =
     (let user = (if adminLogin then req_user\<lparr>role := ''admin''\<rparr> else req_user);
          st' = (if adminLogin then User_findByIdAndUpdate_role st (id' req_user) ''admin'' else st)
      in case generateToken (JWT_SECRET env) (JWT_EXPIRES_IN env) (Document user) of
           Inl e \<Rightarrow> (st', Redirect ''/auth/failure'' None)
         | Inr tok \<Rightarrow> (st', Redirect ''/auth/success'' (Some tok)))"

section \<open>The OAuth callback routes (routes/authRoutes.js)\<close>

text \<open>
  \<open>passport.authenticate\<close> with \<open>session: false\<close> and a \<open>failureRedirect\<close>: when the
  provider exchange fails the request is redirected to the failure page; otherwise
  the strategy's verify callback runs on the profile, its error goes to \<open>next\<close>, and
  its account becomes \<open>req.user\<close> for the handler that follows. The admin routes set
  \<open>req.isAdminLogin = true\<close> first; the plain routes leave it unset.
\<close>

datatype exchange = Profile profile | Denied

definition authenticate_then ::
  "(store \<Rightarrow> profile \<Rightarrow> store \<times> (exn + account)) \<Rightarrow>
   (store \<Rightarrow> account \<Rightarrow> store \<times> response) \<Rightarrow> store \<Rightarrow> exchange \<Rightarrow> store \<times> response" where
  "authenticate_then verify handler st x =
     (case x of
        Denied \<Rightarrow> (st, Redirect ''/auth/failure'' None)
      | Profile p \<Rightarrow>
          (case verify st p of
             (st1, Inl err) \<Rightarrow> (st1, NextError err)
           | (st1, Inr user) \<Rightarrow> handler st1 user))"

definition route_google_callback ::
  "env \<Rightarrow> (string \<Rightarrow> string) \<Rightarrow> store \<Rightarrow> exchange \<Rightarrow> store \<times> response" where
  "route_google_callback env bcrypt_hash =
     authenticate_then (GoogleStrategy_verify bcrypt_hash) (\<lambda>st. googleCallback env st False)"

definition route_admin_google_callback ::
  "env \<Rightarrow> (string \<Rightarrow> string) \<Rightarrow> store \<Rightarrow> exchange \<Rightarrow> store \<times> response" where
  "route_admin_google_callback env bcrypt_hash =
     authenticate_then (GoogleStrategy_verify bcrypt_hash) (\<lambda>st. googleCallback env st True)"

definition route_facebook_callback ::
  "env \<Rightarrow> (string \<Rightarrow> string) \<Rightarrow> store \<Rightarrow> exchange \<Rightarrow> store \<times> response" where
  "route_facebook_callback env bcrypt_hash =
     authenticate_then (FacebookStrategy_verify bcrypt_hash) (\<lambda>st. facebookCallback env st False)"

definition route_admin_facebook_callback ::
  "env \<Rightarrow> (string \<Rightarrow> string) \<Rightarrow> store \<Rightarrow> exchange \<Rightarrow> store \<times> response" where
  "route_admin_facebook_callback env bcrypt_hash =
     authenticate_then (FacebookStrategy_verify bcrypt_hash) (\<lambda>st. facebookCallback env st True)"

section \<open>Reading a response\<close>

fun resp_token :: "response \<Rightarrow> jwt option" where
  "resp_token (Json n b) = token b"
| "resp_token (Redirect path t) = t"
| "resp_token (NextError e) = None"

fun resp_status :: "response \<Rightarrow> nat option" where
  "resp_status (Json n b) = Some n"
| "resp_status (Redirect path t) = None"
| "resp_status (NextError e) = None"


section \<open>Sample instances\<close>

text \<open>
  A configuration with a secret and a lifetime of seven days, an email service that
  always delivers, and the repository's \<open>User.create\<close> with the identity standing for
  bcrypt's hash; a local account whose \<open>local.password\<close> is the hash of \<open>p1\<close>; and a
  request for it.
\<close>

definition sample_env :: env where
  "sample_env =
     \<lparr>create = User_create (\<lambda>p. p),
      sendOTPEmail = (\<lambda>addr code. Inr True),
      development = False,
      JWT_SECRET = Some ''secret'',
      JWT_EXPIRES_IN = Some ''7d''\<rparr>"


definition sample_request :: request where
  "sample_request =
     \<lparr>body_name = ''A'', body_email = ''a@x.com'', body_password = ''p1'',
      body_otp = ''123456'', body_role = JUndefined, params_userId = ObjectIdString 1,
      isAdminLogin = False\<rparr>"

text \<open>
  A provider profile, the same profile after the display name changed at the
  provider, and the accounts that the two strategies create for it in an empty store.
\<close>

definition sample_profile :: profile where
  "sample_profile =
     \<lparr>profile_id = ''g1'', emails = [''A@x.com''], displayName = Some ''A'', photos = []\<rparr>"

definition renamed_profile :: profile where
  "renamed_profile = sample_profile\<lparr>displayName := Some ''B''\<rparr>"

definition sample_google_account :: account where
  "sample_google_account =
     \<lparr>id' = 1, auth_method = ''google'', name = ''A'', email = Some ''a@x.com'',
      role = ''user'', avatar = Some [], local_email = None, local_password = None,
      google_id = Some ''g1'', google_email = Some ''a@x.com'', facebook_id = None,
      facebook_email = None\<rparr>"

definition sample_facebook_account :: account where
  "sample_facebook_account =
     \<lparr>id' = 1, auth_method = ''facebook'', name = ''A'', email = Some ''a@x.com'',
      role = ''user'', avatar = Some [], local_email = None, local_password = None,
      google_id = None, google_email = None, facebook_id = Some ''g1'',
      facebook_email = Some ''a@x.com''\<rparr>"

section \<open>Facts about the store and the strategies\<close>

lemma lowercase_sample_email: "lowercase ''a@x.com'' = ''a@x.com''"
  by code_simp

lemma find_append_new: "find P st = None \<Longrightarrow> P d \<Longrightarrow> find P (st @ [d]) = Some d"
  by (induction st) (auto split: if_splits)

lemma find_None_filter: "find P st = None \<Longrightarrow> filter P st = []"
  by (induction st) (auto split: if_splits)

lemma find_Some_filter: "find P st = Some u \<Longrightarrow> 1 \<le> length (filter P st)"
  by (induction st) (auto split: if_splits)

lemma findById_save:
  "User_findById st (id' d) = Some u \<Longrightarrow> User_findById (save d st) (id' d) = Some d"
  unfolding User_findById_def save_def
  by (induction st) (auto split: if_splits)

lemma findById_update_role:
  "User_findById st i = Some u \<Longrightarrow>
   User_findById (User_findByIdAndUpdate_role st i r) i = Some (u\<lparr>role := r\<rparr>)"
  unfolding User_findById_def User_findByIdAndUpdate_role_def
  by (induction st) (auto split: if_splits)

lemma new_id_bound: "a \<in> set st \<Longrightarrow> id' a < new_id st"
  unfolding new_id_def by (induction st) auto

lemma new_id_fresh: "new_id st \<notin> id' ` set st"
  using new_id_bound [of _ st] by force

lemma distinct_append_new:
  "distinct (map id' st) \<Longrightarrow> id' u = new_id st \<Longrightarrow> distinct (map id' (st @ [u]))"
  using new_id_fresh [of st] by simp

lemma findById_distinct:
  "distinct (map id' st) \<Longrightarrow> u \<in> set st \<Longrightarrow> User_findById st (id' u) = Some u"
  unfolding User_findById_def
  by (induction st) (auto split: if_splits)

lemma id_pre_save [simp]: "id' (pre_save h doc) = id' doc"
  by (simp add: pre_save_def split: option.splits)

lemma google_id_pre_save [simp]: "google_id (pre_save h doc) = google_id doc"
  by (simp add: pre_save_def split: option.splits)

lemma facebook_id_pre_save [simp]: "facebook_id (pre_save h doc) = facebook_id doc"
  by (simp add: pre_save_def split: option.splits)

lemma User_create_Inr:
  "User_create h d st = Inr (doc, st1) \<Longrightarrow>
     schema_errors d = [] \<and> doc = pre_save h (new_User d (new_id st)) \<and> st1 = st @ [doc]"
  by (auto simp add: User_create_def Let_def split: if_splits)

lemma GoogleStrategy_verify_cases:
  assumes "GoogleStrategy_verify h st p = (st1, Inr u)"
  shows "(User_findOne_google st (profile_id p) = Some u \<and> st1 = st)
       \<or> (User_findOne_google st (profile_id p) = None \<and> st1 = st @ [u]
           \<and> google_id u = Some (profile_id p) \<and> id' u = new_id st)"
proof (cases "User_findOne_google st (profile_id p)")
  case None
  with assms obtain d where "User_create h d st = Inr (u, st1)" and "d_google d = Some (profile_id p, first_or_empty (emails p))"
    by (auto simp add: GoogleStrategy_verify_def Let_def split: sum.splits prod.splits)
  then show ?thesis using None
    by (auto dest!: User_create_Inr simp add: new_User_def)
next
  case (Some a)
  with assms show ?thesis by (simp add: GoogleStrategy_verify_def)
qed

lemma FacebookStrategy_verify_cases:
  assumes "FacebookStrategy_verify h st p = (st1, Inr u)"
  shows "(User_findOne_facebook st (profile_id p) = Some u \<and> st1 = st)
       \<or> (User_findOne_facebook st (profile_id p) = None \<and> st1 = st @ [u]
           \<and> facebook_id u = Some (profile_id p) \<and> id' u = new_id st)"
proof (cases "User_findOne_facebook st (profile_id p)")
  case None
  with assms obtain d where "User_create h d st = Inr (u, st1)" and "d_facebook d = Some (profile_id p, first_or_empty (emails p))"
    by (auto simp add: FacebookStrategy_verify_def Let_def split: sum.splits prod.splits)
  then show ?thesis using None
    by (auto dest!: User_create_Inr simp add: new_User_def)
next
  case (Some a)
  with assms show ?thesis by (simp add: FacebookStrategy_verify_def)
qed

lemma GoogleStrategy_verify_again:
  assumes "GoogleStrategy_verify h st p = (st1, Inr u)" and "profile_id p' = profile_id p"
  shows "GoogleStrategy_verify h st1 p' = (st1, Inr u)"
    and "length (filter (\<lambda>a. google_id a = Some (profile_id p)) st1) =
           max 1 (length (filter (\<lambda>a. google_id a = Some (profile_id p)) st))"
proof -
  from GoogleStrategy_verify_cases [OF assms(1)]
  have found: "User_findOne_google st1 (profile_id p) = Some u"
    by (auto simp add: User_findOne_google_def intro: find_append_new)
  then show "GoogleStrategy_verify h st1 p' = (st1, Inr u)"
    using assms(2) by (simp add: GoogleStrategy_verify_def)
  from GoogleStrategy_verify_cases [OF assms(1)]
  show "length (filter (\<lambda>a. google_id a = Some (profile_id p)) st1) =
           max 1 (length (filter (\<lambda>a. google_id a = Some (profile_id p)) st))"
  proof
    assume "User_findOne_google st (profile_id p) = Some u \<and> st1 = st"
    then show ?thesis
      using find_Some_filter [of "\<lambda>a. google_id a = Some (profile_id p)" st u]
      by (simp add: User_findOne_google_def)
  next
    assume "User_findOne_google st (profile_id p) = None \<and> st1 = st @ [u]
           \<and> google_id u = Some (profile_id p) \<and> id' u = new_id st"
    then show ?thesis
      using find_None_filter [of "\<lambda>a. google_id a = Some (profile_id p)" st]
      by (simp add: User_findOne_google_def)
  qed
qed

lemma FacebookStrategy_verify_again:
  assumes "FacebookStrategy_verify h st p = (st1, Inr u)" and "profile_id p' = profile_id p"
  shows "FacebookStrategy_verify h st1 p' = (st1, Inr u)"
    and "length (filter (\<lambda>a. facebook_id a = Some (profile_id p)) st1) =
           max 1 (length (filter (\<lambda>a. facebook_id a = Some (profile_id p)) st))"
proof -
  from FacebookStrategy_verify_cases [OF assms(1)]
  have found: "User_findOne_facebook st1 (profile_id p) = Some u"
    by (auto simp add: User_findOne_facebook_def intro: find_append_new)
  then show "FacebookStrategy_verify h st1 p' = (st1, Inr u)"
    using assms(2) by (simp add: FacebookStrategy_verify_def)
  from FacebookStrategy_verify_cases [OF assms(1)]
  show "length (filter (\<lambda>a. facebook_id a = Some (profile_id p)) st1) =
           max 1 (length (filter (\<lambda>a. facebook_id a = Some (profile_id p)) st))"
  proof
    assume "User_findOne_facebook st (profile_id p) = Some u \<and> st1 = st"
    then show ?thesis
      using find_Some_filter [of "\<lambda>a. facebook_id a = Some (profile_id p)" st u]
      by (simp add: User_findOne_facebook_def)
  next
    assume "User_findOne_facebook st (profile_id p) = None \<and> st1 = st @ [u]
           \<and> facebook_id u = Some (profile_id p) \<and> id' u = new_id st"
    then show ?thesis
      using find_None_filter [of "\<lambda>a. facebook_id a = Some (profile_id p)" st]
      by (simp add: User_findOne_facebook_def)
  qed
qed

lemma find_mem: "find P st = Some u \<Longrightarrow> u \<in> set st"
  by (induction st) (auto split: if_splits)

lemma GoogleStrategy_verify_stored:
  assumes "distinct (map id' st)" and "GoogleStrategy_verify h st p = (st1, Inr u)"
  shows "User_findById st1 (id' u) = Some u"
proof -
  from GoogleStrategy_verify_cases [OF assms(2)]
  have "distinct (map id' st1) \<and> u \<in> set st1"
    using assms(1) distinct_append_new [of st u]
    by (auto simp add: User_findOne_google_def dest: find_mem)
  then show ?thesis by (simp add: findById_distinct)
qed

lemma FacebookStrategy_verify_stored:
  assumes "distinct (map id' st)" and "FacebookStrategy_verify h st p = (st1, Inr u)"
  shows "User_findById st1 (id' u) = Some u"
proof -
  from FacebookStrategy_verify_cases [OF assms(2)]
  have "distinct (map id' st1) \<and> u \<in> set st1"
    using assms(1) distinct_append_new [of st u]
    by (auto simp add: User_findOne_facebook_def dest: find_mem)
  then show ?thesis by (simp add: findById_distinct)
qed

lemma lowercase_sample_upper: "lowercase ''A@x.com'' = ''a@x.com''"
  by code_simp

lemma email_match_sample: "email_match ''a@x.com''"
  by code_simp

lemma GoogleStrategy_verify_sample:
  "GoogleStrategy_verify (\<lambda>p. p) [] sample_profile =
     ([sample_google_account], Inr sample_google_account)"
  by (simp add: GoogleStrategy_verify_def User_findOne_google_def sample_profile_def
      first_or_empty_def User_create_def schema_errors_def required_string_def
      lowercase_sample_upper email_match_sample new_User_def new_id_def pre_save_def
      sample_google_account_def Let_def)

lemma FacebookStrategy_verify_sample:
  "FacebookStrategy_verify (\<lambda>p. p) [] sample_profile =
     ([sample_facebook_account], Inr sample_facebook_account)"
  by (simp add: FacebookStrategy_verify_def User_findOne_facebook_def sample_profile_def
      first_or_empty_def User_create_def schema_errors_def required_string_def
      lowercase_sample_upper email_match_sample new_User_def new_id_def pre_save_def
      sample_facebook_account_def Let_def)

lemma GoogleStrategy_verify_existing:
  "GoogleStrategy_verify (\<lambda>p. p) [sample_google_account] sample_profile =
     ([sample_google_account], Inr sample_google_account)"
  by (simp add: GoogleStrategy_verify_def User_findOne_google_def sample_profile_def
      sample_google_account_def)

lemma ms_parses_sample: "ms_parses ''7d''"
  by code_simp

lemma generateToken_configured:
  "generateToken (Some ''secret'') (Some ''7d'') v =
     Inr \<lparr>claim_id = prop_id v, claim_email = prop_email v, claim_role = prop_role v,
           expiresIn = ''7d''\<rparr>"
  by (simp add: generateToken_def ms_parses_sample)

lemma generateToken_claims:
  "generateToken k x v = Inr tok \<Longrightarrow>
     claim_id tok = prop_id v \<and> claim_email tok = prop_email v \<and> claim_role tok = prop_role v"
  by (auto simp add: generateToken_def split: option.splits if_splits)



section \<open>Properties of the handlers\<close>

subsection \<open>Role update\<close>

text \<open>
  C10. In \<open>updateUserRole\<close> the role is validated before the target is looked up: when
  the body's role is missing or is not one of the strings \<open>user\<close> and \<open>admin\<close>, the
  answer is 400 (invalid input) whatever the store holds and whatever the \<open>:userId\<close>
  is, so also when no such account exists or the parameter is not an id at all, and
  the store is returned as it was.
\<close>

theorem updateUserRole_validates_role_first:
  assumes "body_role req \<noteq> JStr ''user''" and "body_role req \<noteq> JStr ''admin''"
  shows "updateUserRole st req =
           (st, Json 400 (failure (Text ''Please provide a valid role (user or admin)'')))"
  using assms by (simp add: updateUserRole_def includes_role_def)

theorem updateUserRole_validates_role_first_witness:
  "updateUserRole [] (sample_request\<lparr>body_role := JStr ''root'', params_userId := ObjectIdString 7\<rparr>) =
     ([], Json 400 (failure (Text ''Please provide a valid role (user or admin)'')))
   \<and> updateUserRole [] (sample_request\<lparr>body_role := JUndefined, params_userId := Malformed ''x''\<rparr>) =
     ([], Json 400 (failure (Text ''Please provide a valid role (user or admin)'')))
   \<and> updateUserRole [] (sample_request\<lparr>body_role := JStr ''admin'', params_userId := ObjectIdString 7\<rparr>) =
     ([], Json 404 (failure (NoUserFoundWithId (ObjectIdString 7))))"
  using updateUserRole_validates_role_first
          [of "sample_request\<lparr>body_role := JStr ''root'', params_userId := ObjectIdString 7\<rparr>" "[]"]
        updateUserRole_validates_role_first
          [of "sample_request\<lparr>body_role := JUndefined, params_userId := Malformed ''x''\<rparr>" "[]"]
  by (simp add: sample_request_def updateUserRole_def includes_role_def User_findById_def)

subsection \<open>Provider callbacks resolve to one account\<close>

text \<open>
  C6. For either provider, when a callback has resolved a profile to an account, a
  second callback whose profile carries the same provider id resolves to that same
  account, returns it exactly as stored (also when other profile fields, such as the
  display name, have changed) and leaves the store as it was. The first callback
  creates an account only when none had that provider id: after it the number of
  accounts with the id is one if there was none, and unchanged otherwise.
\<close>

theorem oauth_same_provider_id_resolves_to_first:
  assumes "profile_id p' = profile_id p"
  shows "(\<forall>st1 u. GoogleStrategy_verify h st p = (st1, Inr u) \<longrightarrow>
            GoogleStrategy_verify h st1 p' = (st1, Inr u)
            \<and> length (filter (\<lambda>a. google_id a = Some (profile_id p)) st1) =
                max 1 (length (filter (\<lambda>a. google_id a = Some (profile_id p)) st)))
       \<and> (\<forall>st1 u. FacebookStrategy_verify h st p = (st1, Inr u) \<longrightarrow>
            FacebookStrategy_verify h st1 p' = (st1, Inr u)
            \<and> length (filter (\<lambda>a. facebook_id a = Some (profile_id p)) st1) =
                max 1 (length (filter (\<lambda>a. facebook_id a = Some (profile_id p)) st)))"
proof (intro conjI allI impI)
  fix st1 u assume "GoogleStrategy_verify h st p = (st1, Inr u)"
  from GoogleStrategy_verify_again [OF this assms]
  show "GoogleStrategy_verify h st1 p' = (st1, Inr u)"
    and "length (filter (\<lambda>a. google_id a = Some (profile_id p)) st1) =
           max 1 (length (filter (\<lambda>a. google_id a = Some (profile_id p)) st))"
    by simp_all
next
  fix st1 u assume "FacebookStrategy_verify h st p = (st1, Inr u)"
  from FacebookStrategy_verify_again [OF this assms]
  show "FacebookStrategy_verify h st1 p' = (st1, Inr u)"
    and "length (filter (\<lambda>a. facebook_id a = Some (profile_id p)) st1) =
           max 1 (length (filter (\<lambda>a. facebook_id a = Some (profile_id p)) st))"
    by simp_all
qed

theorem oauth_same_provider_id_resolves_to_first_witness:
  "profile_id renamed_profile = profile_id sample_profile
   \<and> GoogleStrategy_verify (\<lambda>p. p) [] sample_profile =
       ([sample_google_account], Inr sample_google_account)
   \<and> GoogleStrategy_verify (\<lambda>p. p) [sample_google_account] renamed_profile =
       ([sample_google_account], Inr sample_google_account)
   \<and> name sample_google_account = ''A''
   \<and> FacebookStrategy_verify (\<lambda>p. p) [] sample_profile =
       ([sample_facebook_account], Inr sample_facebook_account)
   \<and> FacebookStrategy_verify (\<lambda>p. p) [sample_facebook_account] renamed_profile =
       ([sample_facebook_account], Inr sample_facebook_account)"
proof -
  have same: "profile_id renamed_profile = profile_id sample_profile"
    by (simp add: renamed_profile_def)
  from oauth_same_provider_id_resolves_to_first [OF same, of "\<lambda>p. p" "[]"]
    GoogleStrategy_verify_sample FacebookStrategy_verify_sample
  show ?thesis
    by (simp add: same sample_google_account_def)
qed

subsection \<open>Local login\<close>



subsection \<open>Local registration\<close>

text \<open>
  C3 (the code departs from the claim). \<open>register\<close> calls \<open>User.create\<close> with \<open>name\<close>,
  \<open>email\<close>, \<open>password\<close> and \<open>role\<close> only. \<open>userSchema\<close> requires \<open>method\<close> and gives it
  no default, so with the repository's model the creation fails validation on the
  path \<open>method\<close>: whatever the request, \<open>register\<close> leaves the store as it was and
  answers 400 (email taken) or 500 with the validation error, never with a token. No
  account (local, hashed or otherwise) is created.
\<close>

theorem register_rejected_by_userSchema:
  "fst (register (env\<lparr>create := User_create h\<rparr>) st req) = st
   \<and> resp_token (snd (register (env\<lparr>create := User_create h\<rparr>) st req)) = None
   \<and> (case User_findOne_email st (body_email req) of
         Some user \<Rightarrow> resp_status (snd (register (env\<lparr>create := User_create h\<rparr>) st req)) = Some 400
       | None \<Rightarrow> snd (register (env\<lparr>create := User_create h\<rparr>) st req) =
                  caught (ValidationError (schema_errors (registration_draft req))))
   \<and> hd (schema_errors (registration_draft req)) = ''method''"
  by (simp add: register_def User_create_def schema_errors_def registration_draft_def
      required_string_def caught_def failure_def split: option.splits)

lemma register_sample_rejected:
  "register (sample_env\<lparr>create := User_create h\<rparr>) [] sample_request =
     ([], Json 500 (failure (ErrorMessage (ValidationError [''method'']))))"
  by (simp add: register_def User_findOne_email_def User_create_def schema_errors_def
      registration_draft_def sample_request_def required_string_def caught_def
      lowercase_sample_email email_match_sample sample_env_def)

subsection \<open>Email verification\<close>

text \<open>
  C8 (the code departs from the claim). \<open>verifyEmail\<close> calls \<open>user.verifyOTP\<close> on the
  account it found, a method the model does not define, so the call throws: for every
  account that is found and every code, right or wrong, the answer is 500 with the
  \<open>TypeError\<close>, never the 401 of a rejected code. The store is returned as it was.
\<close>

theorem verifyEmail_throws_at_verifyOTP:
  "verifyEmail env st req =
     (st, case User_findOne_email st (body_email req) of
            None \<Rightarrow> Json 404 (failure (Text ''User not found''))
          | Some user \<Rightarrow>
              Json 500 (failure (ErrorMessage (TypeError ''user.verifyOTP is not a function''))))
   \<and> resp_status (snd (verifyEmail env st req)) \<noteq> Some 401
   \<and> verifyEmail env [sample_google_account] (sample_request\<lparr>body_otp := ''000000''\<rparr>) =
       ([sample_google_account],
        Json 500 (failure (ErrorMessage (TypeError ''user.verifyOTP is not a function''))))"
proof -
  have g: "verifyEmail env st req =
     (st, case User_findOne_email st (body_email req) of
            None \<Rightarrow> Json 404 (failure (Text ''User not found''))
          | Some user \<Rightarrow>
              Json 500 (failure (ErrorMessage (TypeError ''user.verifyOTP is not a function''))))"
    by (simp add: verifyEmail_def verifyOTP_def caught_def split: option.splits)
  have f: "User_findOne_email [sample_google_account]
             (body_email (sample_request\<lparr>body_otp := ''000000''\<rparr>)) = Some sample_google_account"
    by (simp add: User_findOne_email_def sample_google_account_def sample_request_def
        lowercase_sample_email)
  have n: "resp_status (snd (verifyEmail env st req)) \<noteq> Some 401"
    by (simp add: verifyEmail_def verifyOTP_def caught_def split: option.splits)
  have s: "verifyEmail env [sample_google_account] (sample_request\<lparr>body_otp := ''000000''\<rparr>) =
       ([sample_google_account],
        Json 500 (failure (ErrorMessage (TypeError ''user.verifyOTP is not a function''))))"
    using f by (simp add: verifyEmail_def verifyOTP_def caught_def)
  show ?thesis using g n s by simp
qed

subsection \<open>OAuth callbacks on the admin routes\<close>

text \<open>
  C7, as the code has it. On the admin callback route of either provider, whenever
  the strategy resolves the profile to an account, found or newly created, the
  handler sets that account's role to \<open>admin\<close> in the store (so an existing \<open>user\<close>
  account is promoted), and no code is asked for. A token is issued exactly when
  \<open>jwt.sign\<close> accepts the configured secret and lifetime: then the redirect carries a
  token whose claims are the account's id and email and the role \<open>admin\<close>; when
  signing throws, the redirect goes to the failure page without a token, the role
  already written. Stored ids are distinct, as \<open>_id\<close>s are.
\<close>

theorem admin_route_forces_admin_and_signs:
  assumes "distinct (map id' st)"
  shows "(\<forall>st1 u. GoogleStrategy_verify h st p = (st1, Inr u) \<longrightarrow>
            fst (route_admin_google_callback env h st (Profile p)) =
              User_findByIdAndUpdate_role st1 (id' u) ''admin''
            \<and> User_findById (User_findByIdAndUpdate_role st1 (id' u) ''admin'') (id' u) =
                Some (u\<lparr>role := ''admin''\<rparr>)
            \<and> snd (route_admin_google_callback env h st (Profile p)) =
                (case generateToken (JWT_SECRET env) (JWT_EXPIRES_IN env)
                        (Document (u\<lparr>role := ''admin''\<rparr>)) of
                   Inl e \<Rightarrow> Redirect ''/auth/failure'' None
                 | Inr tok \<Rightarrow> Redirect ''/admin/dashboard'' (Some tok))
            \<and> (\<forall>tok. generateToken (JWT_SECRET env) (JWT_EXPIRES_IN env)
                        (Document (u\<lparr>role := ''admin''\<rparr>)) = Inr tok \<longrightarrow>
                  claim_id tok = Some (IdString (id' u)) \<and> claim_email tok = email u
                  \<and> claim_role tok = Some ''admin''))
       \<and> (\<forall>st1 u. FacebookStrategy_verify h st p = (st1, Inr u) \<longrightarrow>
            fst (route_admin_facebook_callback env h st (Profile p)) =
              User_findByIdAndUpdate_role st1 (id' u) ''admin''
            \<and> User_findById (User_findByIdAndUpdate_role st1 (id' u) ''admin'') (id' u) =
                Some (u\<lparr>role := ''admin''\<rparr>)
            \<and> snd (route_admin_facebook_callback env h st (Profile p)) =
                (case generateToken (JWT_SECRET env) (JWT_EXPIRES_IN env)
                        (Document (u\<lparr>role := ''admin''\<rparr>)) of
                   Inl e \<Rightarrow> Redirect ''/auth/failure'' None
                 | Inr tok \<Rightarrow> Redirect ''/auth/success'' (Some tok))
            \<and> (\<forall>tok. generateToken (JWT_SECRET env) (JWT_EXPIRES_IN env)
                        (Document (u\<lparr>role := ''admin''\<rparr>)) = Inr tok \<longrightarrow>
                  claim_id tok = Some (IdString (id' u)) \<and> claim_email tok = email u
                  \<and> claim_role tok = Some ''admin''))"
proof (intro conjI allI impI)
  fix st1 u assume v: "GoogleStrategy_verify h st p = (st1, Inr u)"
  then show "fst (route_admin_google_callback env h st (Profile p)) =
              User_findByIdAndUpdate_role st1 (id' u) ''admin''"
    by (simp add: route_admin_google_callback_def authenticate_then_def googleCallback_def
        Let_def split: sum.splits)
  from v show "snd (route_admin_google_callback env h st (Profile p)) =
                (case generateToken (JWT_SECRET env) (JWT_EXPIRES_IN env)
                        (Document (u\<lparr>role := ''admin''\<rparr>)) of
                   Inl e \<Rightarrow> Redirect ''/auth/failure'' None
                 | Inr tok \<Rightarrow> Redirect ''/admin/dashboard'' (Some tok))"
    by (simp add: route_admin_google_callback_def authenticate_then_def googleCallback_def
        Let_def dashboard_def split: sum.splits)
  from GoogleStrategy_verify_stored [OF assms v]
  show "User_findById (User_findByIdAndUpdate_role st1 (id' u) ''admin'') (id' u) =
                Some (u\<lparr>role := ''admin''\<rparr>)"
    by (rule findById_update_role)
next
  fix st1 u assume v: "FacebookStrategy_verify h st p = (st1, Inr u)"
  then show "fst (route_admin_facebook_callback env h st (Profile p)) =
              User_findByIdAndUpdate_role st1 (id' u) ''admin''"
    by (simp add: route_admin_facebook_callback_def authenticate_then_def facebookCallback_def
        Let_def split: sum.splits)
  from v show "snd (route_admin_facebook_callback env h st (Profile p)) =
                (case generateToken (JWT_SECRET env) (JWT_EXPIRES_IN env)
                        (Document (u\<lparr>role := ''admin''\<rparr>)) of
                   Inl e \<Rightarrow> Redirect ''/auth/failure'' None
                 | Inr tok \<Rightarrow> Redirect ''/auth/success'' (Some tok))"
    by (simp add: route_admin_facebook_callback_def authenticate_then_def facebookCallback_def
        Let_def split: sum.splits)
  from FacebookStrategy_verify_stored [OF assms v]
  show "User_findById (User_findByIdAndUpdate_role st1 (id' u) ''admin'') (id' u) =
                Some (u\<lparr>role := ''admin''\<rparr>)"
    by (rule findById_update_role)
next
  fix st1 u tok
  assume "generateToken (JWT_SECRET env) (JWT_EXPIRES_IN env) (Document (u\<lparr>role := ''admin''\<rparr>)) = Inr tok"
  from generateToken_claims [OF this]
  show "claim_id tok = Some (IdString (id' u))" and "claim_email tok = email u"
    and "claim_role tok = Some ''admin''"
    by simp_all
next
  fix st1 u tok
  assume "generateToken (JWT_SECRET env) (JWT_EXPIRES_IN env) (Document (u\<lparr>role := ''admin''\<rparr>)) = Inr tok"
  from generateToken_claims [OF this]
  show "claim_id tok = Some (IdString (id' u))" and "claim_email tok = email u"
    and "claim_role tok = Some ''admin''"
    by simp_all
qed

theorem admin_route_forces_admin_and_signs_witness:
  "distinct (map id' [sample_google_account])
   \<and> role sample_google_account = ''user''
   \<and> route_admin_google_callback sample_env (\<lambda>p. p) [sample_google_account] (Profile sample_profile) =
       ([sample_google_account\<lparr>role := ''admin''\<rparr>],
        Redirect ''/admin/dashboard''
          (Some \<lparr>claim_id = Some (IdString 1), claim_email = Some ''a@x.com'',
                 claim_role = Some ''admin'', expiresIn = ''7d''\<rparr>))
   \<and> route_admin_facebook_callback sample_env (\<lambda>p. p) [] (Profile sample_profile) =
       ([sample_facebook_account\<lparr>role := ''admin''\<rparr>],
        Redirect ''/auth/success''
          (Some \<lparr>claim_id = Some (IdString 1), claim_email = Some ''a@x.com'',
                 claim_role = Some ''admin'', expiresIn = ''7d''\<rparr>))"
proof -
  have d1: "distinct (map id' [sample_google_account])" by simp
  have d2: "distinct (map id' ([] :: store))" by simp
  have k: "JWT_SECRET sample_env = Some ''secret''" "JWT_EXPIRES_IN sample_env = Some ''7d''"
    by (simp_all add: sample_env_def)
  from admin_route_forces_admin_and_signs [OF d1, of "\<lambda>p. p" sample_profile sample_env]
    GoogleStrategy_verify_existing
  have g: "fst (route_admin_google_callback sample_env (\<lambda>p. p) [sample_google_account] (Profile sample_profile)) =
             User_findByIdAndUpdate_role [sample_google_account] (id' sample_google_account) ''admin''
         \<and> snd (route_admin_google_callback sample_env (\<lambda>p. p) [sample_google_account] (Profile sample_profile)) =
             (case generateToken (JWT_SECRET sample_env) (JWT_EXPIRES_IN sample_env)
                     (Document (sample_google_account\<lparr>role := ''admin''\<rparr>)) of
                Inl e \<Rightarrow> Redirect ''/auth/failure'' None
              | Inr tok \<Rightarrow> Redirect ''/admin/dashboard'' (Some tok))"
    by blast
  from admin_route_forces_admin_and_signs [OF d2, of "\<lambda>p. p" sample_profile sample_env]
    FacebookStrategy_verify_sample
  have f: "fst (route_admin_facebook_callback sample_env (\<lambda>p. p) [] (Profile sample_profile)) =
             User_findByIdAndUpdate_role [sample_facebook_account] (id' sample_facebook_account) ''admin''
         \<and> snd (route_admin_facebook_callback sample_env (\<lambda>p. p) [] (Profile sample_profile)) =
             (case generateToken (JWT_SECRET sample_env) (JWT_EXPIRES_IN sample_env)
                     (Document (sample_facebook_account\<lparr>role := ''admin''\<rparr>)) of
                Inl e \<Rightarrow> Redirect ''/auth/failure'' None
              | Inr tok \<Rightarrow> Redirect ''/auth/success'' (Some tok))"
    by blast
  have "route_admin_google_callback sample_env (\<lambda>p. p) [sample_google_account] (Profile sample_profile) =
       ([sample_google_account\<lparr>role := ''admin''\<rparr>],
        Redirect ''/admin/dashboard''
          (Some \<lparr>claim_id = Some (IdString 1), claim_email = Some ''a@x.com'',
                 claim_role = Some ''admin'', expiresIn = ''7d''\<rparr>))"
    using g
    by (simp add: prod_eq_iff k generateToken_configured User_findByIdAndUpdate_role_def
        sample_google_account_def)
  moreover have "route_admin_facebook_callback sample_env (\<lambda>p. p) [] (Profile sample_profile) =
       ([sample_facebook_account\<lparr>role := ''admin''\<rparr>],
        Redirect ''/auth/success''
          (Some \<lparr>claim_id = Some (IdString 1), claim_email = Some ''a@x.com'',
                 claim_role = Some ''admin'', expiresIn = ''7d''\<rparr>))"
    using f
    by (simp add: prod_eq_iff k generateToken_configured User_findByIdAndUpdate_role_def
        sample_facebook_account_def)
  ultimately show ?thesis
    by (simp add: sample_google_account_def)
qed

text \<open>
  The claim as stated, a token for every callback on an admin route, fails where the
  lifetime is not configured: the existing \<open>user\<close> account is promoted and the
  request is redirected to the failure page without a token.
\<close>

theorem admin_route_without_lifetime_issues_no_token:
  "route_admin_google_callback (sample_env\<lparr>JWT_EXPIRES_IN := None\<rparr>) (\<lambda>p. p)
     [sample_google_account] (Profile sample_profile) =
     ([sample_google_account\<lparr>role := ''admin''\<rparr>], Redirect ''/auth/failure'' None)"
proof -
  have "route_admin_google_callback (sample_env\<lparr>JWT_EXPIRES_IN := None\<rparr>) (\<lambda>p. p)
          [sample_google_account] (Profile sample_profile) =
        googleCallback (sample_env\<lparr>JWT_EXPIRES_IN := None\<rparr>) [sample_google_account] True
          sample_google_account"
    by (simp add: route_admin_google_callback_def authenticate_then_def
        GoogleStrategy_verify_existing)
  then show ?thesis
    by (simp add: googleCallback_def Let_def generateToken_def sample_env_def
        User_findByIdAndUpdate_role_def sample_google_account_def)
qed

end
